theory Spec2Isabelle
  imports Complex_Main "HOL-Library.Word"
begin

section \<open>The live courtroom session of Satyavak\<close>

text \<open>
  A shallow embedding of the component \<open>LiveCourtroomSession\<close> (the live voice
  simulation of the virtual courtroom) and of \<open>getTextToSpeech\<close>. Every callback
  of the component is a function from the session state to the session state. The
  session state is the component's React state and its refs, together with the state of
  the platform objects the refs point to.

  Strings are lists of 8-bit code units (characters of JavaScript strings below 256).
  Times (\<open>currentTime\<close>, \<open>duration\<close>) and audio samples are rationals, as every
  finite JavaScript number is one. Sums of times are taken exactly, leaving the rounding of
  floating-point addition aside; the product of a sample with \<open>32768\<close> is exact.
  An \<open>await\<close> is modelled as running at once: a callback runs to its end before the
  next event is handled. A callback passed to \<open>then\<close> on the session promise runs
  after the callback that has passed it has returned.
\<close>

subsection \<open>Data\<close>

datatype SessionStatus =
  Initializing | Starting | Active | Speaking | Listening | Ended | Error

datatype Speaker = Judge | You

record Transcript =
  speaker :: Speaker
  ttext :: string

text \<open>Errors raised by the platform, the SDK and the audio helpers.\<close>

datatype exn = TypeError | DecodeError | InvalidStateError | ApiError | PermissionDenied

text \<open>
  The fields of a \<open>LiveServerMessage\<close> that \<open>onmessage\<close> reads. A transcription
  object may be absent, and when present its \<open>text\<close> may be undefined.
  \<open>modelAudio\<close> is the value of
  \<open>serverContent?.modelTurn?.parts[0]?.inlineData?.data\<close>.
\<close>

record LiveServerMessage =
  inputTranscription :: "string option option"
  outputTranscription :: "string option option"
  turnComplete :: bool
  modelAudio :: "string option"

datatype AudioContextState = Running | Closed

datatype TrackState = Live | TrackEnded

type_synonym MediaStream = "TrackState list"

record ScriptProcessorNode =
  connected :: bool

datatype LiveSession = SessionOpen | SessionClosed

datatype 'a promise = Fulfilled 'a | Rejected

text \<open>
  An \<open>AudioBufferSourceNode\<close> that has been started: \<open>sid\<close> is the identity of
  the object, \<open>startAt\<close> the argument of \<open>source.start\<close>, \<open>bufDuration\<close> the
  duration of its buffer.
\<close>

record AudioBufferSourceNode =
  sid :: nat
  startAt :: rat
  bufDuration :: rat
  stopped :: bool

record Blob =
  blobData :: string
  mimeType :: string

text \<open>The calls the component makes on the platform and on the live session.\<close>

datatype call =
    SessionClose
  | TrackStop nat
  | NodeDisconnect
  | InputContextClose
  | SourceStop nat
  | OutputContextClose
  | SendRealtimeInput Blob

text \<open>
  The state and the refs of the component keep their names. \<open>created\<close> counts the
  source nodes created so far (the next object identity), \<open>openingPlaying\<close> tells that
  the opening statement is playing and its \<open>onended\<close> callback is pending,
  \<open>calls\<close> is the history of the calls made, oldest first, and \<open>raised\<close> the errors
  raised or logged so far.
\<close>

record Session =
  status :: SessionStatus
  transcripts :: "Transcript list"
  currentUserInput :: string
  currentJudgeOutput :: string
  errorMsg :: string
  sessionPromiseRef :: "LiveSession promise option"
  audioContextRef :: "AudioContextState option"
  scriptProcessorRef :: "ScriptProcessorNode option"
  mediaStreamRef :: "MediaStream option"
  outputAudioContextRef :: "AudioContextState option"
  nextStartTimeRef :: rat
  outputSourcesRef :: "AudioBufferSourceNode list"
  currentUserInputRef :: string
  currentJudgeOutputRef :: string
  created :: nat
  openingPlaying :: bool
  calls :: "call list"
  raised :: "exn list"

definition initial :: Session where
  "initial = \<lparr>status = Initializing, transcripts = [], currentUserInput = [],
     currentJudgeOutput = [], errorMsg = [], sessionPromiseRef = None,
     audioContextRef = None, scriptProcessorRef = None, mediaStreamRef = None,
     outputAudioContextRef = None, nextStartTimeRef = 0, outputSourcesRef = [],
     currentUserInputRef = [], currentJudgeOutputRef = [], created = 0,
     openingPlaying = False, calls = [], raised = []\<rparr>"

subsection \<open>Strings\<close>

text \<open>The white space and line terminators of JavaScript below 256.\<close>

definition isWhiteSpace :: "char \<Rightarrow> bool" where
  "isWhiteSpace c = (c \<in> set [CHR 0x09, CHR 0x0A, CHR 0x0B, CHR 0x0C, CHR 0x0D, CHR 0x20, CHR 0xA0])"

definition trim :: "string \<Rightarrow> string" where
  "trim s = rev (dropWhile isWhiteSpace (rev (dropWhile isWhiteSpace s)))"

text \<open>\<open>acc += t.text\<close>: an undefined text is appended as the string undefined.\<close>

definition appendText :: "string \<Rightarrow> string option \<Rightarrow> string" where
  "appendText acc t = acc @ (case t of None \<Rightarrow> ''undefined'' | Some x \<Rightarrow> x)"

subsection \<open>The message callback\<close>

definition onInputTranscription :: "LiveServerMessage \<Rightarrow> Session \<Rightarrow> Session" where
  "onInputTranscription m s =
     (case inputTranscription m of
        None \<Rightarrow> s
      | Some t \<Rightarrow>
          s\<lparr>currentUserInputRef := appendText (currentUserInputRef s) t,
            currentUserInput := appendText (currentUserInputRef s) t\<rparr>)"

definition onOutputTranscription :: "LiveServerMessage \<Rightarrow> Session \<Rightarrow> Session" where
  "onOutputTranscription m s =
     (case outputTranscription m of
        None \<Rightarrow> s
      | Some t \<Rightarrow>
          s\<lparr>currentJudgeOutputRef := appendText (currentJudgeOutputRef s) t,
            currentJudgeOutput := appendText (currentJudgeOutputRef s) t\<rparr>)"

text \<open>The updater passed to \<open>setTranscripts\<close>.\<close>

definition newTranscripts :: "string \<Rightarrow> string \<Rightarrow> Transcript list \<Rightarrow> Transcript list" where
  "newTranscripts userInput judgeOutput prev =
     (let t1 = (if trim userInput \<noteq> []
                then prev @ [\<lparr>speaker = You, ttext = trim userInput\<rparr>] else prev)
      in if trim judgeOutput \<noteq> []
         then t1 @ [\<lparr>speaker = Judge, ttext = trim judgeOutput\<rparr>] else t1)"

definition onTurnComplete :: "LiveServerMessage \<Rightarrow> Session \<Rightarrow> Session" where
  "onTurnComplete m s =
     (if turnComplete m
      then s\<lparr>transcripts :=
               newTranscripts (currentUserInputRef s) (currentJudgeOutputRef s) (transcripts s),
             currentUserInputRef := [],
             currentJudgeOutputRef := [],
             currentUserInput := [],
             currentJudgeOutput := []\<rparr>
      else s)"

text \<open>
  The audio part. \<open>dec\<close> stands for \<open>decodeAudioData(decode(base64Audio), ...)\<close>
  of \<open>utils/audio\<close>: it gives the duration of the decoded buffer, or \<open>None\<close> when
  decoding raises. \<open>now\<close> is the value of \<open>audioContext.currentTime\<close> read by the
  callback. An error leaves the callback at the place where it is raised.
\<close>

definition onModelAudio ::
  "(string \<Rightarrow> rat option) \<Rightarrow> rat \<Rightarrow> LiveServerMessage \<Rightarrow> Session \<Rightarrow> Session" where
  "onModelAudio dec now m s =
     (case modelAudio m of
        None \<Rightarrow> s
      | Some base64Audio \<Rightarrow>
          if base64Audio = [] then s
          else
            (let s1 = s\<lparr>status := Speaking\<rparr> in
             case outputAudioContextRef s1 of
               None \<Rightarrow> s1\<lparr>raised := raised s1 @ [TypeError]\<rparr>
             | Some audioContext \<Rightarrow>
                 (let s2 = s1\<lparr>nextStartTimeRef := max (nextStartTimeRef s1) now\<rparr> in
                  case dec base64Audio of
                    None \<Rightarrow> s2\<lparr>raised := raised s2 @ [DecodeError]\<rparr>
                  | Some d \<Rightarrow>
                      s2\<lparr>created := Suc (created s2),
                         nextStartTimeRef := nextStartTimeRef s2 + d,
                         outputSourcesRef := outputSourcesRef s2 @
                           [\<lparr>sid = created s2, startAt = nextStartTimeRef s2,
                             bufDuration = d, stopped = False\<rparr>]\<rparr>)))"

definition onmessage ::
  "(string \<Rightarrow> rat option) \<Rightarrow> rat \<Rightarrow> LiveServerMessage \<Rightarrow> Session \<Rightarrow> Session" where
  "onmessage dec now m s =
     onModelAudio dec now m (onTurnComplete m (onOutputTranscription m (onInputTranscription m s)))"

text \<open>The \<open>ended\<close> listener of the source node with identity \<open>i\<close>.\<close>

definition onSourceEnded :: "nat \<Rightarrow> Session \<Rightarrow> Session" where
  "onSourceEnded i s =
     (let rest = filter (\<lambda>src. sid src \<noteq> i) (outputSourcesRef s)
      in if rest = [] then s\<lparr>outputSourcesRef := rest, status := Listening\<rparr>
         else s\<lparr>outputSourcesRef := rest\<rparr>)"

definition onerror :: "Session \<Rightarrow> Session" where
  "onerror s = s\<lparr>errorMsg := ''A connection error occurred.'', status := Error\<rparr>"

definition onclose :: "Session \<Rightarrow> Session" where
  "onclose s = s"


subsection \<open>Callbacks chained on the session promise\<close>

text \<open>
  \<open>sessionPromiseRef.current?.then(callback)\<close> is written twice, with a callback that
  closes the session and with one that sends a blob. Nothing is chained when the ref is
  empty. A chained callback does not run at once: it runs when the running callback has
  returned, with the session, if the promise is fulfilled. If the promise is rejected the
  callback does not run, and the promise that \<open>then\<close> returns is rejected with the
  error of the connection; no handler is attached to it, so the rejection is unhandled.
\<close>

datatype reaction = ThenClose | ThenSend Blob

definition react :: "Session \<Rightarrow> reaction \<Rightarrow> Session" where
  "react s r =
     (case sessionPromiseRef s of
        None \<Rightarrow> s
      | Some Rejected \<Rightarrow> s\<lparr>raised := raised s @ [ApiError]\<rparr>
      | Some (Fulfilled session) \<Rightarrow>
          (case r of
             ThenClose \<Rightarrow>
               s\<lparr>sessionPromiseRef := Some (Fulfilled SessionClosed),
                 calls := calls s @ [SessionClose]\<rparr>
           | ThenSend blob \<Rightarrow> s\<lparr>calls := calls s @ [SendRealtimeInput blob]\<rparr>))"

text \<open>
  A callback of the component gives the state it leaves and the callbacks it has chained;
  these run next, in the order in which they were chained.
\<close>

definition runReactions :: "Session \<times> reaction list \<Rightarrow> Session" where
  "runReactions p = foldl react (fst p) (snd p)"

subsection \<open>The capture callback\<close>

text \<open>
  \<open>new Int16Array(inputData.map(f => f * 32768))\<close>: the product is exact, and the
  conversion to an element of an \<open>Int16Array\<close> truncates towards zero and wraps
  modulo \<open>2 ^ 16\<close>. The \<open>Uint8Array\<close> over the same buffer reads each sample as
  two bytes, low byte first.
\<close>

definition jsTruncate :: "rat \<Rightarrow> int" where
  "jsTruncate x = (if 0 \<le> x then \<lfloor>x\<rfloor> else \<lceil>x\<rceil>)"

definition toInt16 :: "rat \<Rightarrow> 16 word" where
  "toInt16 x = word_of_int (jsTruncate x)"

definition int16Bytes :: "16 word \<Rightarrow> 8 word list" where
  "int16Bytes w = [ucast w, ucast (drop_bit 8 w)]"

definition pcmBytes :: "rat list \<Rightarrow> 8 word list" where
  "pcmBytes inputData = concat (map (\<lambda>f. int16Bytes (toInt16 (f * 32768))) inputData)"

text \<open>\<open>enc\<close> stands for \<open>encode\<close> of \<open>utils/audio\<close>.\<close>

definition pcmBlob :: "(8 word list \<Rightarrow> string) \<Rightarrow> rat list \<Rightarrow> Blob" where
  "pcmBlob enc inputData =
     \<lparr>blobData = enc (pcmBytes inputData), mimeType = ''audio/pcm;rate=16000''\<rparr>"

definition onaudioprocess ::
  "(8 word list \<Rightarrow> string) \<Rightarrow> rat list \<Rightarrow> Session \<Rightarrow> Session \<times> reaction list" where
  "onaudioprocess enc inputData s =
     (case sessionPromiseRef s of
        None \<Rightarrow> (s, [])
      | Some sessionPromise \<Rightarrow> (s, [ThenSend (pcmBlob enc inputData)]))"

subsection \<open>Opening the channel\<close>

text \<open>
  \<open>mic\<close> is the outcome of \<open>getUserMedia\<close>: the stream, or \<open>None\<close> when the
  promise is rejected (permission refused, no device).
\<close>

definition onopen :: "MediaStream option \<Rightarrow> Session \<Rightarrow> Session" where
  "onopen mic s =
     (case mic of
        None \<Rightarrow>
          s\<lparr>raised := raised s @ [PermissionDenied],
            errorMsg := ''Microphone access is required. Please grant permission and try again.'',
            status := Error\<rparr>
      | Some stream \<Rightarrow>
          s\<lparr>mediaStreamRef := Some stream,
            audioContextRef := Some Running,
            scriptProcessorRef := Some \<lparr>connected = True\<rparr>,
            status := Listening\<rparr>)"

text \<open>\<open>ok\<close> tells whether the promise of \<open>ai.live.connect\<close> is fulfilled.\<close>

definition startLiveSession :: "bool \<Rightarrow> Session \<Rightarrow> Session" where
  "startLiveSession ok s =
     (let s1 = s\<lparr>status := Starting\<rparr> in
      if ok then s1\<lparr>sessionPromiseRef := Some (Fulfilled SessionOpen)\<rparr>
      else s1\<lparr>sessionPromiseRef := Some Rejected,
              raised := raised s1 @ [ApiError],
              errorMsg := ''Failed to connect to live session.'',
              status := Error\<rparr>)"

subsection \<open>The opening statement\<close>

text \<open>
  The outcome of \<open>ai.models.generateContent\<close>: the call raises, or it returns a
  response whose \<open>candidates?.[0]?.content?.parts?.[0]?.inlineData?.data\<close> is the
  given value.
\<close>

datatype ttsResponse = ResponseError | ResponseData "string option"

fun getTextToSpeech :: "ttsResponse \<Rightarrow> exn + string option" where
  "getTextToSpeech ResponseError = Inl ApiError"
| "getTextToSpeech (ResponseData base64Audio) =
     Inr (case base64Audio of
            None \<Rightarrow> None
          | Some b \<Rightarrow> if b = [] then None else Some b)"

definition openingFailed :: "exn \<Rightarrow> Session \<Rightarrow> Session" where
  "openingFailed e s =
     s\<lparr>raised := raised s @ [e],
       errorMsg := ''Failed to start the session. Please try again.'',
       status := Error\<rparr>"

definition playOpeningStatement ::
  "(string \<Rightarrow> rat option) \<Rightarrow> ttsResponse \<Rightarrow> bool \<Rightarrow> Session \<Rightarrow> Session" where
  "playOpeningStatement dec response ok s =
     (case getTextToSpeech response of
        Inl e \<Rightarrow> openingFailed e s
      | Inr audioData \<Rightarrow>
          (case audioData of
             None \<Rightarrow> startLiveSession ok s
           | Some a \<Rightarrow>
               if a = [] then startLiveSession ok s
               else
                 (let s1 = (if outputAudioContextRef s = None
                            then s\<lparr>outputAudioContextRef := Some Running\<rparr> else s)
                  in case dec a of
                       None \<Rightarrow> openingFailed DecodeError s1
                     | Some d \<Rightarrow> s1\<lparr>openingPlaying := True\<rparr>)))"

subsection \<open>Teardown\<close>

text \<open>
  The statements of \<open>cleanUp\<close> after the first, in the order of the source.
  \<open>AudioContext.close()\<close> is rejected with an \<open>InvalidStateError\<close> on a closed
  context; the other calls have no error.
\<close>

definition stopTracks :: "Session \<Rightarrow> Session" where
  "stopTracks s =
     (case mediaStreamRef s of
        None \<Rightarrow> s
      | Some tracks \<Rightarrow>
          s\<lparr>mediaStreamRef := Some (map (\<lambda>track. TrackEnded) tracks),
            calls := calls s @ map TrackStop [0..<length tracks]\<rparr>)"

definition disconnectProcessor :: "Session \<Rightarrow> Session" where
  "disconnectProcessor s =
     (case scriptProcessorRef s of
        None \<Rightarrow> s
      | Some node \<Rightarrow>
          s\<lparr>scriptProcessorRef := Some (node\<lparr>connected := False\<rparr>),
            calls := calls s @ [NodeDisconnect]\<rparr>)"

definition AudioContext_close :: "AudioContextState \<Rightarrow> exn + AudioContextState" where
  "AudioContext_close st = (if st = Closed then Inl InvalidStateError else Inr Closed)"

definition closeInputContext :: "Session \<Rightarrow> Session" where
  "closeInputContext s =
     (case audioContextRef s of
        None \<Rightarrow> s
      | Some st \<Rightarrow>
          if st \<noteq> Closed
          then (case AudioContext_close st of
                  Inl e \<Rightarrow> s\<lparr>calls := calls s @ [InputContextClose], raised := raised s @ [e]\<rparr>
                | Inr st' \<Rightarrow> s\<lparr>audioContextRef := Some st', calls := calls s @ [InputContextClose]\<rparr>)
          else s)"

definition stopSources :: "Session \<Rightarrow> Session" where
  "stopSources s =
     s\<lparr>outputSourcesRef := map (\<lambda>source. source\<lparr>stopped := True\<rparr>) (outputSourcesRef s),
       calls := calls s @ map (\<lambda>source. SourceStop (sid source)) (outputSourcesRef s)\<rparr>"

definition closeOutputContext :: "Session \<Rightarrow> Session" where
  "closeOutputContext s =
     (case outputAudioContextRef s of
        None \<Rightarrow> s
      | Some st \<Rightarrow>
          if st \<noteq> Closed
          then (case AudioContext_close st of
                  Inl e \<Rightarrow> s\<lparr>calls := calls s @ [OutputContextClose], raised := raised s @ [e]\<rparr>
                | Inr st' \<Rightarrow> s\<lparr>outputAudioContextRef := Some st', calls := calls s @ [OutputContextClose]\<rparr>)
          else s)"

text \<open>
  The first statement of \<open>cleanUp\<close> chains the close of the session on the session
  promise; the five releases above follow.
\<close>

definition cleanUp :: "Session \<Rightarrow> Session \<times> reaction list" where
  "cleanUp s =
     (let chained = (case sessionPromiseRef s of
                       None \<Rightarrow> []
                     | Some sessionPromise \<Rightarrow> [ThenClose]);
          s1 = stopTracks s;
          s2 = disconnectProcessor s1;
          s3 = closeInputContext s2;
          s4 = stopSources s3;
          s5 = closeOutputContext s4
      in (s5, chained))"

text \<open>
  \<open>handleEndSession\<close> runs \<open>cleanUp\<close> and sets the status. The timer it starts
  for \<open>onEndSession\<close> changes nothing of the session; the owner unmounts the component
  when it fires.
\<close>

definition handleEndSession :: "Session \<Rightarrow> Session \<times> reaction list" where
  "handleEndSession s = ((fst (cleanUp s))\<lparr>status := Ended\<rparr>, snd (cleanUp s))"

text \<open>
  A click on the button that ends the session, and the unmounting of the component: the
  callback and then the callbacks it has chained.
\<close>

definition endSessionTask :: "Session \<Rightarrow> Session" where
  "endSessionTask s = runReactions (handleEndSession s)"

definition unmountTask :: "Session \<Rightarrow> Session" where
  "unmountTask s = runReactions (cleanUp s)"

subsection \<open>Events\<close>

text \<open>
  The events the component reacts to, each with what the platform hands to the callback.
  A callback runs only when it has been registered: the channel callbacks once
  \<open>ai.live.connect\<close> has been called, \<open>onaudioprocess\<close> once the processing node
  exists, the \<open>ended\<close> listener of a source while the source is in the set.
\<close>

datatype event =
    Mounted ttsResponse bool
  | OpeningEnded bool
  | Open "MediaStream option"
  | Message rat LiveServerMessage
  | SourceEnded nat
  | ChannelError
  | ChannelClose
  | AudioProcess "rat list"
  | EndSession
  | Unmounted

fun step ::
  "(string \<Rightarrow> rat option) \<Rightarrow> (8 word list \<Rightarrow> string) \<Rightarrow> event \<Rightarrow> Session \<Rightarrow> Session" where
  "step dec enc (Mounted response ok) s =
     (if status s = Initializing \<and> \<not> openingPlaying s
      then playOpeningStatement dec response ok s else s)"
| "step dec enc (OpeningEnded ok) s =
     (if openingPlaying s then startLiveSession ok (s\<lparr>openingPlaying := False\<rparr>) else s)"
| "step dec enc (Open mic) s =
     (if sessionPromiseRef s \<noteq> None then onopen mic s else s)"
| "step dec enc (Message now m) s =
     (if sessionPromiseRef s \<noteq> None then onmessage dec now m s else s)"
| "step dec enc (SourceEnded i) s =
     (if i \<in> sid ` set (outputSourcesRef s) then onSourceEnded i s else s)"
| "step dec enc ChannelError s =
     (if sessionPromiseRef s \<noteq> None then onerror s else s)"
| "step dec enc ChannelClose s =
     (if sessionPromiseRef s \<noteq> None then onclose s else s)"
| "step dec enc (AudioProcess inputData) s =
     (if scriptProcessorRef s \<noteq> None then runReactions (onaudioprocess enc inputData s) else s)"
| "step dec enc EndSession s = endSessionTask s"
| "step dec enc Unmounted s = unmountTask s"

fun run ::
  "(string \<Rightarrow> rat option) \<Rightarrow> (8 word list \<Rightarrow> string) \<Rightarrow> event list \<Rightarrow> Session \<Rightarrow> Session" where
  "run dec enc [] s = s"
| "run dec enc (e # es) s = run dec enc es (step dec enc e s)"

text \<open>A run of \<open>onmessage\<close> over messages paired with the clock read by each.\<close>

fun onmessages ::
  "(string \<Rightarrow> rat option) \<Rightarrow> (rat \<times> LiveServerMessage) list \<Rightarrow> Session \<Rightarrow> Session" where
  "onmessages dec [] s = s"
| "onmessages dec (e # es) s = onmessages dec es (onmessage dec (fst e) (snd e) s)"


subsection \<open>Notions used in the statements\<close>

text \<open>
  The text a message adds to the accumulator of the user and of the judge, and the entry
  committed for an accumulator at the end of a turn.
\<close>

definition userFrag :: "LiveServerMessage \<Rightarrow> string" where
  "userFrag m = (case inputTranscription m of None \<Rightarrow> [] | Some t \<Rightarrow> appendText [] t)"

definition judgeFrag :: "LiveServerMessage \<Rightarrow> string" where
  "judgeFrag m = (case outputTranscription m of None \<Rightarrow> [] | Some t \<Rightarrow> appendText [] t)"

definition committed :: "Speaker \<Rightarrow> string \<Rightarrow> Transcript list" where
  "committed sp acc = (if trim acc \<noteq> [] then [\<lparr>speaker = sp, ttext = trim acc\<rparr>] else [])"

text \<open>
  A message carries an audio frame that decodes; the duration of the decoded buffer.
\<close>

definition decodes :: "(string \<Rightarrow> rat option) \<Rightarrow> LiveServerMessage \<Rightarrow> bool" where
  "decodes dec m =
     (case modelAudio m of None \<Rightarrow> False | Some b \<Rightarrow> b \<noteq> [] \<and> dec b \<noteq> None)"

definition frameDuration :: "(string \<Rightarrow> rat option) \<Rightarrow> LiveServerMessage \<Rightarrow> rat" where
  "frameDuration dec m =
     (case modelAudio m of None \<Rightarrow> 0 | Some b \<Rightarrow> (case dec b of None \<Rightarrow> 0 | Some d \<Rightarrow> d))"

text \<open>The part of \<open>onmessage\<close> before the audio part.\<close>

definition beforeAudio :: "LiveServerMessage \<Rightarrow> Session \<Rightarrow> Session" where
  "beforeAudio m s = onTurnComplete m (onOutputTranscription m (onInputTranscription m s))"

text \<open>
  Concrete inputs for the instances below: a decoder that accepts one payload (six zero
  bytes, three samples at 24 kHz) and rejects every other string, and messages carrying
  text only or audio only.
\<close>

definition stubDecode :: "string \<Rightarrow> rat option" where
  "stubDecode b = (if b = ''AAAAAAAA'' then Some (1 / 8000) else None)"

definition textMessage :: "string option \<Rightarrow> string option \<Rightarrow> bool \<Rightarrow> LiveServerMessage" where
  "textMessage u j tc =
     \<lparr>inputTranscription = map_option Some u, outputTranscription = map_option Some j,
      turnComplete = tc, modelAudio = None\<rparr>"

definition audioMessage :: "string \<Rightarrow> LiveServerMessage" where
  "audioMessage b =
     \<lparr>inputTranscription = None, outputTranscription = None, turnComplete = False,
      modelAudio = Some b\<rparr>"

text \<open>
  A stand-in for \<open>encode\<close> in the instances below: each byte as one character.
\<close>

definition stubEncode :: "8 word list \<Rightarrow> string" where
  "stubEncode bytes = map (\<lambda>b. char_of (unat b)) bytes"

text \<open>
  Three states of a session, each reached from the initial state (see the lemmas on
  reachability below): the channel is connected and \<open>onopen\<close> has not run; the
  microphone is open and nothing plays; one frame is playing.
\<close>

definition startingState :: Session where
  "startingState = initial\<lparr>status := Starting, sessionPromiseRef := Some (Fulfilled SessionOpen)\<rparr>"

definition listeningState :: Session where
  "listeningState = \<lparr>status = Listening, transcripts = [], currentUserInput = [],
     currentJudgeOutput = [], errorMsg = [], sessionPromiseRef = Some (Fulfilled SessionOpen),
     audioContextRef = Some Running, scriptProcessorRef = Some \<lparr>connected = True\<rparr>,
     mediaStreamRef = Some [Live], outputAudioContextRef = Some Running,
     nextStartTimeRef = 0, outputSourcesRef = [],
     currentUserInputRef = [], currentJudgeOutputRef = [], created = 0,
     openingPlaying = False, calls = [], raised = []\<rparr>"

definition speakingState :: Session where
  "speakingState = listeningState\<lparr>status := Speaking, nextStartTimeRef := 1 + 1 / 8000,
     outputSourcesRef := [\<lparr>sid = 0, startAt = 1, bufDuration = 1 / 8000, stopped = False\<rparr>],
     created := 1\<rparr>"

text \<open>
  The status reflects playback: it is \<open>Speaking\<close> exactly when a source is in the set.
  The playback events are the messages whose audio frame, if there is one, decodes, and
  the completions of sources.
\<close>

definition statusReflectsPlayback :: "Session \<Rightarrow> bool" where
  "statusReflectsPlayback s = ((status s = Speaking) = (outputSourcesRef s \<noteq> []))"

fun playbackEvent :: "(string \<Rightarrow> rat option) \<Rightarrow> event \<Rightarrow> bool" where
  "playbackEvent dec (Message now m) =
     (modelAudio m = None \<or> modelAudio m = Some [] \<or> decodes dec m)"
| "playbackEvent dec (SourceEnded i) = True"
| "playbackEvent dec e = False"

text \<open>
  The calls that send captured audio, and the events that run \<open>onopen\<close>.
\<close>

fun isSend :: "call \<Rightarrow> bool" where
  "isSend (SendRealtimeInput blob) = True"
| "isSend c = False"

definition sends :: "Session \<Rightarrow> call list" where
  "sends s = filter isSend (calls s)"

fun isOpen :: "event \<Rightarrow> bool" where
  "isOpen (Open mic) = True"
| "isOpen e = False"

text \<open>
  The calls a callback adds to the history. \<open>releaseCalls\<close> lists the releases made
  when \<open>cleanUp\<close> runs from a state, in the order in which they are made: the five
  releases of its statements, and last the close of the session, which its first
  statement has chained. \<open>codeReleaseRank\<close> numbers the kinds of release in that
  order.
\<close>

definition issued :: "(Session \<Rightarrow> Session) \<Rightarrow> Session \<Rightarrow> call list" where
  "issued f s = drop (length (calls s)) (calls (f s))"

definition releaseCalls :: "Session \<Rightarrow> call list" where
  "releaseCalls s =
     (case mediaStreamRef s of None \<Rightarrow> [] | Some tracks \<Rightarrow> map TrackStop [0..<length tracks])
     @ (case scriptProcessorRef s of None \<Rightarrow> [] | Some node \<Rightarrow> [NodeDisconnect])
     @ (if audioContextRef s = Some Running then [InputContextClose] else [])
     @ map (\<lambda>source. SourceStop (sid source)) (outputSourcesRef s)
     @ (if outputAudioContextRef s = Some Running then [OutputContextClose] else [])
     @ (case sessionPromiseRef s of Some (Fulfilled session) \<Rightarrow> [SessionClose] | _ \<Rightarrow> [])"

fun codeReleaseRank :: "call \<Rightarrow> nat" where
  "codeReleaseRank (TrackStop i) = 0"
| "codeReleaseRank NodeDisconnect = 1"
| "codeReleaseRank InputContextClose = 2"
| "codeReleaseRank (SourceStop i) = 3"
| "codeReleaseRank OutputContextClose = 4"
| "codeReleaseRank SessionClose = 5"
| "codeReleaseRank (SendRealtimeInput blob) = 6"

fun isContextClose :: "call \<Rightarrow> bool" where
  "isContextClose InputContextClose = True"
| "isContextClose OutputContextClose = True"
| "isContextClose c = False"

text \<open>
  The order of release as the specification words it: the active playback sources, then
  the microphone device and the processing node, then the audio input context, then the
  streaming channel, then the audio output context.
\<close>

fun specReleaseRank :: "call \<Rightarrow> nat" where
  "specReleaseRank (SourceStop i) = 0"
| "specReleaseRank (TrackStop i) = 1"
| "specReleaseRank NodeDisconnect = 1"
| "specReleaseRank InputContextClose = 2"
| "specReleaseRank SessionClose = 3"
| "specReleaseRank OutputContextClose = 4"
| "specReleaseRank (SendRealtimeInput blob) = 5"

text \<open>
  Every resource handle is released: the channel is not open, no track is live, the
  processing node is disconnected, no context is running and every source is stopped. A
  handle that was never acquired counts as released.
\<close>

definition released :: "Session \<Rightarrow> bool" where
  "released s =
     (sessionPromiseRef s \<noteq> Some (Fulfilled SessionOpen)
      \<and> (case mediaStreamRef s of None \<Rightarrow> True | Some tracks \<Rightarrow> list_all (\<lambda>t. t = TrackEnded) tracks)
      \<and> (case scriptProcessorRef s of None \<Rightarrow> True | Some node \<Rightarrow> \<not> connected node)
      \<and> audioContextRef s \<noteq> Some Running
      \<and> list_all stopped (outputSourcesRef s)
      \<and> outputAudioContextRef s \<noteq> Some Running)"

section \<open>Properties\<close>

subsection \<open>Transcripts\<close>

lemma appendText_assoc: "appendText acc t = acc @ appendText [] t"
  by (simp add: appendText_def)

lemma onInputTranscription_sel:
  "currentUserInputRef (onInputTranscription m s) = currentUserInputRef s @ userFrag m"
  "currentJudgeOutputRef (onInputTranscription m s) = currentJudgeOutputRef s"
  "transcripts (onInputTranscription m s) = transcripts s"
  "currentJudgeOutput (onInputTranscription m s) = currentJudgeOutput s"
  by (simp_all add: onInputTranscription_def userFrag_def appendText_assoc [of "currentUserInputRef s"]
        split: option.splits)

lemma onOutputTranscription_sel:
  "currentJudgeOutputRef (onOutputTranscription m s) = currentJudgeOutputRef s @ judgeFrag m"
  "currentUserInputRef (onOutputTranscription m s) = currentUserInputRef s"
  "transcripts (onOutputTranscription m s) = transcripts s"
  "currentUserInput (onOutputTranscription m s) = currentUserInput s"
  by (simp_all add: onOutputTranscription_def judgeFrag_def appendText_assoc [of "currentJudgeOutputRef s"]
        split: option.splits)

lemma newTranscripts_eq:
  "newTranscripts u j prev = prev @ committed You u @ committed Judge j"
  by (simp add: newTranscripts_def committed_def Let_def)

lemma onTurnComplete_True:
  "turnComplete m \<Longrightarrow>
     transcripts (onTurnComplete m s) =
       transcripts s @ committed You (currentUserInputRef s) @ committed Judge (currentJudgeOutputRef s)
     \<and> currentUserInputRef (onTurnComplete m s) = []
     \<and> currentJudgeOutputRef (onTurnComplete m s) = []
     \<and> currentUserInput (onTurnComplete m s) = []
     \<and> currentJudgeOutput (onTurnComplete m s) = []"
  by (simp add: onTurnComplete_def newTranscripts_eq)

lemma onTurnComplete_False:
  "\<not> turnComplete m \<Longrightarrow> onTurnComplete m s = s"
  by (simp add: onTurnComplete_def)

lemma onModelAudio_sel:
  "transcripts (onModelAudio dec now m s) = transcripts s"
  "currentUserInputRef (onModelAudio dec now m s) = currentUserInputRef s"
  "currentJudgeOutputRef (onModelAudio dec now m s) = currentJudgeOutputRef s"
  "currentUserInput (onModelAudio dec now m s) = currentUserInput s"
  "currentJudgeOutput (onModelAudio dec now m s) = currentJudgeOutput s"
  by (simp_all add: onModelAudio_def Let_def split: option.splits)

lemma onmessage_partial:
  assumes "\<not> turnComplete m"
  shows "transcripts (onmessage dec now m s) = transcripts s"
    and "currentUserInputRef (onmessage dec now m s) = currentUserInputRef s @ userFrag m"
    and "currentJudgeOutputRef (onmessage dec now m s) = currentJudgeOutputRef s @ judgeFrag m"
  using assms
  by (simp_all add: onmessage_def onModelAudio_sel onTurnComplete_False
        onOutputTranscription_sel onInputTranscription_sel)

lemma onmessage_turnComplete:
  assumes "turnComplete m"
  shows "transcripts (onmessage dec now m s) =
           transcripts s @ committed You (currentUserInputRef s @ userFrag m)
             @ committed Judge (currentJudgeOutputRef s @ judgeFrag m)"
    and "currentUserInputRef (onmessage dec now m s) = []"
    and "currentJudgeOutputRef (onmessage dec now m s) = []"
    and "currentUserInput (onmessage dec now m s) = []"
    and "currentJudgeOutput (onmessage dec now m s) = []"
  using onTurnComplete_True [OF assms, of "onOutputTranscription m (onInputTranscription m s)"]
  by (simp_all add: onmessage_def onModelAudio_sel
        onOutputTranscription_sel onInputTranscription_sel)

lemma onmessages_partials:
  "list_all (\<lambda>e. \<not> turnComplete (snd e)) es \<Longrightarrow>
     transcripts (onmessages dec es s) = transcripts s
     \<and> currentUserInputRef (onmessages dec es s) =
         currentUserInputRef s @ concat (map (\<lambda>e. userFrag (snd e)) es)
     \<and> currentJudgeOutputRef (onmessages dec es s) =
         currentJudgeOutputRef s @ concat (map (\<lambda>e. judgeFrag (snd e)) es)"
proof (induction es arbitrary: s)
  case Nil
  then show ?case by simp
next
  case (Cons e es)
  then show ?case by (simp add: onmessage_partial)
qed

lemma committed_length: "length (committed sp acc) \<le> 1"
  by (simp add: committed_def)

lemma trim_examples:
  "trim '' I object '' = ''I object''"
  "trim ''Overruled. '' = ''Overruled.''"
  "trim ''  '' = []"
  by (simp_all add: trim_def isWhiteSpace_def)

text \<open>
  C2. Turn commit atomicity. After any messages that do not complete the turn, a message
  that completes it appends to the transcript the entry \<open>You\<close> with the trimmed text of
  the user accumulator when that text is not empty, then the entry \<open>Judge\<close> with the
  trimmed text of the judge accumulator when that text is not empty, so at most two
  entries; after it both accumulators and both displayed partials are empty.
\<close>

theorem turn_commit_atomicity:
  assumes "list_all (\<lambda>e. \<not> turnComplete (snd e)) es" and "turnComplete m"
  shows "transcripts (onmessage dec now m (onmessages dec es s)) =
           transcripts s
           @ committed You (currentUserInputRef s @ concat (map (\<lambda>e. userFrag (snd e)) es) @ userFrag m)
           @ committed Judge (currentJudgeOutputRef s @ concat (map (\<lambda>e. judgeFrag (snd e)) es) @ judgeFrag m)
         \<and> length (transcripts (onmessage dec now m (onmessages dec es s))) \<le> length (transcripts s) + 2
         \<and> currentUserInputRef (onmessage dec now m (onmessages dec es s)) = []
         \<and> currentJudgeOutputRef (onmessage dec now m (onmessages dec es s)) = []
         \<and> currentUserInput (onmessage dec now m (onmessages dec es s)) = []
         \<and> currentJudgeOutput (onmessage dec now m (onmessages dec es s)) = []"
proof -
  let ?s = "onmessages dec es s"
  let ?u = "currentUserInputRef s @ concat (map (\<lambda>e. userFrag (snd e)) es) @ userFrag m"
  let ?j = "currentJudgeOutputRef s @ concat (map (\<lambda>e. judgeFrag (snd e)) es) @ judgeFrag m"
  note p = onmessages_partials [OF assms(1), of dec s]
  have t: "transcripts (onmessage dec now m ?s) = transcripts s @ committed You ?u @ committed Judge ?j"
    using onmessage_turnComplete(1) [OF assms(2), of dec now ?s] p by simp
  have "length (committed You ?u) + length (committed Judge ?j) \<le> 2"
    using committed_length [of You ?u] committed_length [of Judge ?j] by linarith
  with t have l: "length (transcripts (onmessage dec now m ?s)) \<le> length (transcripts s) + 2"
    by simp
  show ?thesis
    using t l onmessage_turnComplete(2-5) [OF assms(2), of dec now ?s] by simp
qed

theorem turn_commit_atomicity_witness:
  "list_all (\<lambda>e. \<not> turnComplete (snd e))
     [(0, textMessage (Some '' I '') None False), (1, textMessage (Some ''object '') (Some ''Overruled'') False)]
   \<and> turnComplete (textMessage None (Some ''. '') True)
   \<and> transcripts (onmessage stubDecode 2 (textMessage None (Some ''. '') True)
        (onmessages stubDecode
           [(0, textMessage (Some '' I '') None False),
            (1, textMessage (Some ''object '') (Some ''Overruled'') False)] initial)) =
       [\<lparr>speaker = You, ttext = ''I object''\<rparr>, \<lparr>speaker = Judge, ttext = ''Overruled.''\<rparr>]
   \<and> currentUserInputRef (onmessage stubDecode 2 (textMessage None (Some ''. '') True)
        (onmessages stubDecode
           [(0, textMessage (Some '' I '') None False),
            (1, textMessage (Some ''object '') (Some ''Overruled'') False)] initial)) = []"
  using turn_commit_atomicity [of
      "[(0, textMessage (Some '' I '') None False), (1, textMessage (Some ''object '') (Some ''Overruled'') False)]"
      "textMessage None (Some ''. '') True" stubDecode 2 initial]
  by (simp add: textMessage_def userFrag_def judgeFrag_def appendText_def committed_def
        initial_def trim_examples)

text \<open>
  C10. Order within a turn. When a message completes a turn and both accumulators are
  not empty after trimming, exactly the entry of \<open>You\<close> followed by the entry of
  \<open>Judge\<close> is appended to the transcript.
\<close>

theorem user_entry_precedes_judge_entry:
  assumes "turnComplete m"
    and "trim (currentUserInputRef s @ userFrag m) \<noteq> []"
    and "trim (currentJudgeOutputRef s @ judgeFrag m) \<noteq> []"
  shows "transcripts (onmessage dec now m s) =
           transcripts s @
             [\<lparr>speaker = You, ttext = trim (currentUserInputRef s @ userFrag m)\<rparr>,
              \<lparr>speaker = Judge, ttext = trim (currentJudgeOutputRef s @ judgeFrag m)\<rparr>]"
  using onmessage_turnComplete(1) [OF assms(1), of dec now s] assms(2,3)
  by (simp add: committed_def)

theorem user_entry_precedes_judge_entry_witness:
  "turnComplete (textMessage (Some '' I object '') (Some ''Overruled. '') True)
   \<and> trim (currentUserInputRef initial @ userFrag (textMessage (Some '' I object '') (Some ''Overruled. '') True)) \<noteq> []
   \<and> trim (currentJudgeOutputRef initial @ judgeFrag (textMessage (Some '' I object '') (Some ''Overruled. '') True)) \<noteq> []
   \<and> transcripts (onmessage stubDecode 0 (textMessage (Some '' I object '') (Some ''Overruled. '') True) initial) =
       [\<lparr>speaker = You, ttext = ''I object''\<rparr>, \<lparr>speaker = Judge, ttext = ''Overruled.''\<rparr>]"
  using user_entry_precedes_judge_entry [of
      "textMessage (Some '' I object '') (Some ''Overruled. '') True" initial stubDecode 0]
  by (simp add: textMessage_def userFrag_def judgeFrag_def appendText_def initial_def trim_examples)

subsection \<open>Playback schedule\<close>

lemma beforeAudio_sel:
  "status (beforeAudio m s) = status s"
  "outputAudioContextRef (beforeAudio m s) = outputAudioContextRef s"
  "nextStartTimeRef (beforeAudio m s) = nextStartTimeRef s"
  "outputSourcesRef (beforeAudio m s) = outputSourcesRef s"
  "created (beforeAudio m s) = created s"
  "raised (beforeAudio m s) = raised s"
  by (simp_all add: beforeAudio_def onTurnComplete_def onOutputTranscription_def
        onInputTranscription_def split: option.splits)

lemma onmessage_beforeAudio: "onmessage dec now m s = onModelAudio dec now m (beforeAudio m s)"
  by (simp add: onmessage_def beforeAudio_def)

lemma onModelAudio_decodes:
  assumes "outputAudioContextRef s \<noteq> None" and "decodes dec m"
  shows "outputSourcesRef (onModelAudio dec now m s) =
           outputSourcesRef s @ [\<lparr>sid = created s, startAt = max (nextStartTimeRef s) now,
              bufDuration = frameDuration dec m, stopped = False\<rparr>]"
    and "nextStartTimeRef (onModelAudio dec now m s) =
           max (nextStartTimeRef s) now + frameDuration dec m"
    and "status (onModelAudio dec now m s) = Speaking"
  using assms
  by (auto simp add: onModelAudio_def decodes_def frameDuration_def Let_def split: option.splits)

lemma onModelAudio_context:
  "outputAudioContextRef (onModelAudio dec now m s) = outputAudioContextRef s"
  by (simp add: onModelAudio_def Let_def split: option.splits)

lemma onmessage_context:
  "outputAudioContextRef (onmessage dec now m s) = outputAudioContextRef s"
  by (simp add: onmessage_beforeAudio onModelAudio_context beforeAudio_sel)

lemma onmessages_context:
  "outputAudioContextRef (onmessages dec es s) = outputAudioContextRef s"
  by (induction es arbitrary: s) (simp_all add: onmessage_context)

lemma onmessage_decodes:
  assumes "outputAudioContextRef s \<noteq> None" and "decodes dec m"
  shows "outputSourcesRef (onmessage dec now m s) =
           outputSourcesRef s @ [\<lparr>sid = created s, startAt = max (nextStartTimeRef s) now,
              bufDuration = frameDuration dec m, stopped = False\<rparr>]"
    and "nextStartTimeRef (onmessage dec now m s) =
           max (nextStartTimeRef s) now + frameDuration dec m"
    and "status (onmessage dec now m s) = Speaking"
  using onModelAudio_decodes [of "beforeAudio m s" dec m now] assms
  by (simp_all add: onmessage_beforeAudio beforeAudio_sel)

text \<open>
  C1. Gapless ordered playback. With an output context, after any earlier messages, two
  audio frames that decode and arrive one after the other, read at the clock values
  \<open>t1\<close> and \<open>t2\<close>, are scheduled in that order: the first starts at the later of
  \<open>t1\<close> and the tracked next start time, the second at the later of \<open>t2\<close> and the
  end of the first, so never before that end, and after each frame the tracked next start
  time is the start of the frame plus the duration of its buffer.
\<close>

theorem gapless_ordered_playback:
  assumes "outputAudioContextRef s \<noteq> None"
    and "decodes dec m1" and "decodes dec m2"
  shows "(let s0 = onmessages dec es s;
              s1 = onmessage dec t1 m1 s0;
              s2 = onmessage dec t2 m2 s1;
              src1 = last (outputSourcesRef s1);
              src2 = last (outputSourcesRef s2)
          in outputSourcesRef s2 = outputSourcesRef s0 @ [src1, src2]
           \<and> bufDuration src1 = frameDuration dec m1
           \<and> bufDuration src2 = frameDuration dec m2
           \<and> startAt src1 = max t1 (nextStartTimeRef s0)
           \<and> nextStartTimeRef s1 = startAt src1 + bufDuration src1
           \<and> startAt src2 = max t2 (startAt src1 + bufDuration src1)
           \<and> startAt src1 + bufDuration src1 \<le> startAt src2
           \<and> nextStartTimeRef s2 = startAt src2 + bufDuration src2)"
proof -
  let ?s0 = "onmessages dec es s"
  let ?s1 = "onmessage dec t1 m1 ?s0"
  have c0: "outputAudioContextRef ?s0 \<noteq> None"
    using assms(1) by (simp add: onmessages_context)
  then have c1: "outputAudioContextRef ?s1 \<noteq> None"
    by (simp add: onmessage_context)
  note a = onmessage_decodes [OF c0 assms(2), of t1]
  note b = onmessage_decodes [OF c1 assms(3), of t2]
  show ?thesis
    unfolding Let_def by (simp add: a b max.commute)
qed

theorem gapless_ordered_playback_witness:
  "outputAudioContextRef (initial\<lparr>outputAudioContextRef := Some Running\<rparr>) \<noteq> None
   \<and> decodes stubDecode (audioMessage ''AAAAAAAA'')
   \<and> startAt (last (outputSourcesRef (onmessage stubDecode 2 (audioMessage ''AAAAAAAA'')
        (onmessages stubDecode [] (initial\<lparr>outputAudioContextRef := Some Running\<rparr>))))) = 2
   \<and> startAt (last (outputSourcesRef (onmessage stubDecode 2 (audioMessage ''AAAAAAAA'')
        (onmessage stubDecode 2 (audioMessage ''AAAAAAAA'')
          (onmessages stubDecode [] (initial\<lparr>outputAudioContextRef := Some Running\<rparr>)))))) = 2 + 1 / 8000"
  using gapless_ordered_playback [of "initial\<lparr>outputAudioContextRef := Some Running\<rparr>"
      stubDecode "audioMessage ''AAAAAAAA''" "audioMessage ''AAAAAAAA''" "[]" 2 2]
  by (simp add: Let_def decodes_def frameDuration_def audioMessage_def stubDecode_def initial_def)


subsection \<open>Reachable states\<close>

lemma startingState_reachable:
  "run stubDecode stubEncode [Mounted (ResponseData None) True] initial = startingState"
  by (simp add: initial_def startingState_def playOpeningStatement_def startLiveSession_def)

lemma listeningState_reachable:
  "run stubDecode stubEncode
     [Mounted (ResponseData (Some ''AAAAAAAA'')) True, OpeningEnded True, Open (Some [Live])] initial
   = listeningState"
  by (simp add: initial_def listeningState_def playOpeningStatement_def startLiveSession_def
        onopen_def stubDecode_def)

lemma speakingState_reachable:
  "run stubDecode stubEncode [Message 1 (audioMessage ''AAAAAAAA'')] listeningState = speakingState"
  by (simp add: listeningState_def speakingState_def onmessage_def onModelAudio_def
        onTurnComplete_def onOutputTranscription_def onInputTranscription_def
        audioMessage_def stubDecode_def)

subsection \<open>Status and playback\<close>

lemma onModelAudio_no_audio:
  "modelAudio m = None \<or> modelAudio m = Some [] \<Longrightarrow> onModelAudio dec now m s = s"
  by (auto simp add: onModelAudio_def)

lemma onmessage_reflects:
  assumes "statusReflectsPlayback s" and "outputAudioContextRef s \<noteq> None"
    and "modelAudio m = None \<or> modelAudio m = Some [] \<or> decodes dec m"
  shows "statusReflectsPlayback (onmessage dec now m s)"
proof (cases "decodes dec m")
  case True
  then show ?thesis
    using onmessage_decodes [OF assms(2) True, of now]
    by (simp add: statusReflectsPlayback_def)
next
  case False
  with assms(3) have "modelAudio m = None \<or> modelAudio m = Some []" by blast
  then have "onmessage dec now m s = beforeAudio m s"
    by (simp add: onmessage_beforeAudio onModelAudio_no_audio)
  with assms(1) show ?thesis
    by (simp add: statusReflectsPlayback_def beforeAudio_sel)
qed

lemma onSourceEnded_sel:
  "outputSourcesRef (onSourceEnded i s) = filter (\<lambda>src. sid src \<noteq> i) (outputSourcesRef s)"
  "outputAudioContextRef (onSourceEnded i s) = outputAudioContextRef s"
  "status (onSourceEnded i s) =
     (if filter (\<lambda>src. sid src \<noteq> i) (outputSourcesRef s) = [] then Listening else status s)"
  by (simp_all add: onSourceEnded_def Let_def)

lemma onSourceEnded_reflects:
  assumes "statusReflectsPlayback s"
  shows "statusReflectsPlayback (onSourceEnded i s)"
    and "status (onSourceEnded i s) =
           (if outputSourcesRef (onSourceEnded i s) = [] then Listening else Speaking)"
proof -
  have "status s = Speaking" if "filter (\<lambda>src. sid src \<noteq> i) (outputSourcesRef s) \<noteq> []"
  proof -
    from that have "outputSourcesRef s \<noteq> []" by auto
    with assms show ?thesis by (simp add: statusReflectsPlayback_def)
  qed
  then show "statusReflectsPlayback (onSourceEnded i s)"
    and "status (onSourceEnded i s) =
           (if outputSourcesRef (onSourceEnded i s) = [] then Listening else Speaking)"
    by (simp_all add: statusReflectsPlayback_def onSourceEnded_sel)
qed

lemma step_playback_reflects:
  assumes "statusReflectsPlayback s" and "outputAudioContextRef s \<noteq> None"
    and "playbackEvent dec e"
  shows "statusReflectsPlayback (step dec enc e s) \<and> outputAudioContextRef (step dec enc e s) \<noteq> None"
proof (cases e)
  case (Message now m)
  then show ?thesis
    using assms onmessage_reflects [of s m dec now] by (simp add: onmessage_context)
next
  case (SourceEnded i)
  then show ?thesis
    using assms onSourceEnded_reflects(1) [of s i] by (simp add: onSourceEnded_sel)
qed (use assms in simp_all)

lemma run_playback_reflects:
  "statusReflectsPlayback s \<Longrightarrow> outputAudioContextRef s \<noteq> None \<Longrightarrow>
   list_all (playbackEvent dec) es \<Longrightarrow>
   statusReflectsPlayback (run dec enc es s) \<and> outputAudioContextRef (run dec enc es s) \<noteq> None"
proof (induction es arbitrary: s)
  case Nil
  then show ?case by simp
next
  case (Cons e es)
  then show ?case
    using step_playback_reflects [of s dec e enc] by simp
qed

text \<open>
  C3, as stated, fails: the status is not \<open>Speaking\<close> exactly when the set of sources
  is not empty in every reachable state. After the opening statement, the connection, the
  microphone and one audio frame, a transport error sets the status to \<open>Error\<close> while
  the source of the frame is still in the set.
\<close>

theorem status_error_while_playing_counterexample:
  "\<not> statusReflectsPlayback
       (run stubDecode stubEncode
          [Mounted (ResponseData (Some ''AAAAAAAA'')) True, OpeningEnded True, Open (Some [Live]),
           Message 1 (audioMessage ''AAAAAAAA''), ChannelError] initial)"
proof -
  have "run stubDecode stubEncode
          [Mounted (ResponseData (Some ''AAAAAAAA'')) True, OpeningEnded True, Open (Some [Live]),
           Message 1 (audioMessage ''AAAAAAAA''), ChannelError] initial
        = run stubDecode stubEncode [ChannelError]
            (run stubDecode stubEncode [Message 1 (audioMessage ''AAAAAAAA'')]
               (run stubDecode stubEncode
                  [Mounted (ResponseData (Some ''AAAAAAAA'')) True, OpeningEnded True,
                   Open (Some [Live])] initial))"
    by simp
  also have "\<dots> = run stubDecode stubEncode [ChannelError] speakingState"
    by (simp only: listeningState_reachable speakingState_reachable)
  finally show ?thesis
    by (simp add: speakingState_def listeningState_def onerror_def statusReflectsPlayback_def)
qed

text \<open>
  C3, amended. From a state where the status reflects playback and the output context
  exists, every run of playback events (messages whose audio frame, if any, decodes, and
  completions of sources) leads to a state where the status reflects playback; there, the
  completion of a source removes it from the set and leaves the status \<open>Listening\<close>
  when the set has become empty and \<open>Speaking\<close> otherwise.
\<close>

theorem status_reflects_playback:
  assumes "statusReflectsPlayback s" and "outputAudioContextRef s \<noteq> None"
    and "list_all (playbackEvent dec) es"
  shows "statusReflectsPlayback (run dec enc es s)
       \<and> outputSourcesRef (onSourceEnded i (run dec enc es s)) =
           filter (\<lambda>src. sid src \<noteq> i) (outputSourcesRef (run dec enc es s))
       \<and> status (onSourceEnded i (run dec enc es s)) =
           (if outputSourcesRef (onSourceEnded i (run dec enc es s)) = [] then Listening else Speaking)"
  using run_playback_reflects [OF assms, of enc]
    onSourceEnded_reflects(2) [of "run dec enc es s" i]
  by (simp add: onSourceEnded_sel(1))

theorem status_reflects_playback_witness:
  "statusReflectsPlayback listeningState \<and> outputAudioContextRef listeningState \<noteq> None
   \<and> list_all (playbackEvent stubDecode) [Message 1 (audioMessage ''AAAAAAAA''), SourceEnded 0]
   \<and> statusReflectsPlayback
       (run stubDecode stubEncode [Message 1 (audioMessage ''AAAAAAAA''), SourceEnded 0] listeningState)
   \<and> status (onSourceEnded 0 (run stubDecode stubEncode [Message 1 (audioMessage ''AAAAAAAA'')] listeningState))
       = Listening"
proof -
  have a: "statusReflectsPlayback listeningState \<and> outputAudioContextRef listeningState \<noteq> None"
    by (simp add: statusReflectsPlayback_def listeningState_def)
  have b: "list_all (playbackEvent stubDecode) [Message 1 (audioMessage ''AAAAAAAA''), SourceEnded 0]"
    by (simp add: decodes_def audioMessage_def stubDecode_def)
  have c: "list_all (playbackEvent stubDecode) [Message 1 (audioMessage ''AAAAAAAA'')]"
    by (simp add: decodes_def audioMessage_def stubDecode_def)
  show ?thesis
    using a b
      status_reflects_playback [of listeningState stubDecode
        "[Message 1 (audioMessage ''AAAAAAAA''), SourceEnded 0]" stubEncode 0]
      status_reflects_playback [of listeningState stubDecode
        "[Message 1 (audioMessage ''AAAAAAAA'')]" stubEncode 0] c
    by (simp only: speakingState_reachable)
      (simp add: speakingState_def listeningState_def)
qed

lemma onmessage_decode_failure:
  assumes "outputAudioContextRef s \<noteq> None"
    and "modelAudio m = Some b" and "b \<noteq> []" and "dec b = None"
  shows "status (onmessage dec now m s) = Speaking"
    and "outputSourcesRef (onmessage dec now m s) = outputSourcesRef s"
    and "raised (onmessage dec now m s) = raised s @ [DecodeError]"
    and "nextStartTimeRef (onmessage dec now m s) = max (nextStartTimeRef s) now"
  using assms
  by (auto simp add: onmessage_beforeAudio onModelAudio_def beforeAudio_sel Let_def
        split: option.splits)

text \<open>
  C7. A frame that does not decode arrives while the session listens and nothing plays:
  \<open>onmessage\<close> has set the status to \<open>Speaking\<close> before decoding, the error leaves
  the callback, no source is scheduled, and the status stays \<open>Speaking\<close> with an
  empty set of sources.
\<close>

theorem decode_failure_sets_speaking:
  "stubDecode ''!!!!'' = None
   \<and> status listeningState = Listening
   \<and> status (onmessage stubDecode 1 (audioMessage ''!!!!'') listeningState) = Speaking
   \<and> outputSourcesRef (onmessage stubDecode 1 (audioMessage ''!!!!'') listeningState) = []
   \<and> raised (onmessage stubDecode 1 (audioMessage ''!!!!'') listeningState) = [DecodeError]"
  by (simp add: listeningState_def onmessage_def onModelAudio_def
        onTurnComplete_def onOutputTranscription_def onInputTranscription_def
        audioMessage_def stubDecode_def)

subsection \<open>The opening statement\<close>

text \<open>
  C6, as stated, fails for a call that raises: \<open>playOpeningStatement\<close> catches the
  error, sets the status to \<open>Error\<close> and does not start the live session.
\<close>

theorem opening_statement_raise_counterexample:
  "status (playOpeningStatement stubDecode ResponseError True initial) = Error
   \<and> sessionPromiseRef (playOpeningStatement stubDecode ResponseError True initial) = None"
  by (simp add: playOpeningStatement_def openingFailed_def initial_def)

text \<open>
  C6, amended. When the text-to-speech call returns nothing, \<open>playOpeningStatement\<close>
  is \<open>startLiveSession\<close>: with a connection that succeeds the status is
  \<open>Starting\<close>, the channel is open and no error is raised. When the call raises, the
  status is \<open>Error\<close> with the message of the opening statement, and no connection is
  attempted.
\<close>

theorem opening_statement_fallback:
  "(getTextToSpeech response = Inr None \<longrightarrow>
      playOpeningStatement dec response ok s = startLiveSession ok s
      \<and> status (playOpeningStatement dec response True s) = Starting
      \<and> sessionPromiseRef (playOpeningStatement dec response True s) = Some (Fulfilled SessionOpen)
      \<and> raised (playOpeningStatement dec response True s) = raised s)
   \<and> (getTextToSpeech response = Inl e \<longrightarrow>
      status (playOpeningStatement dec response ok s) = Error
      \<and> errorMsg (playOpeningStatement dec response ok s) =
          ''Failed to start the session. Please try again.''
      \<and> sessionPromiseRef (playOpeningStatement dec response ok s) = sessionPromiseRef s)"
  by (simp add: playOpeningStatement_def startLiveSession_def openingFailed_def)

theorem opening_statement_fallback_witness:
  "getTextToSpeech (ResponseData (Some [])) = Inr None
   \<and> status (playOpeningStatement stubDecode (ResponseData (Some [])) True initial) = Starting
   \<and> getTextToSpeech ResponseError = Inl ApiError
   \<and> status (playOpeningStatement stubDecode ResponseError True initial) = Error"
  using opening_statement_fallback [of "ResponseData (Some [])" stubDecode True initial ApiError]
    opening_statement_fallback [of ResponseError stubDecode True initial ApiError]
  by (simp add: startLiveSession_def)

subsection \<open>Encoding captured samples\<close>

lemma jsTruncate_bounds:
  assumes "- 32768 \<le> x" and "x < 32768"
  shows "- 32768 \<le> jsTruncate x" and "jsTruncate x < 32768"
proof -
  show "- 32768 \<le> jsTruncate x"
  proof (cases "0 \<le> x")
    case True
    then show ?thesis by (simp add: jsTruncate_def)
  next
    case False
    have "- 32768 \<le> \<lceil>x\<rceil>" using assms(1) by (simp add: le_ceiling_iff)
    with False show ?thesis by (simp add: jsTruncate_def)
  qed
  show "jsTruncate x < 32768"
  proof (cases "0 \<le> x")
    case True
    have "\<lfloor>x\<rfloor> < 32768" using assms(2) by (simp add: floor_less_iff)
    with True show ?thesis by (simp add: jsTruncate_def)
  next
    case False
    then have "\<lceil>x\<rceil> \<le> 0" by (simp add: ceiling_le_iff)
    with False show ?thesis by (simp add: jsTruncate_def)
  qed
qed

lemma sint_toInt16_exact:
  assumes "- 32768 \<le> x" and "x < 32768"
  shows "sint (toInt16 x) = jsTruncate x"
proof -
  have "signed_take_bit 15 (jsTruncate x) = jsTruncate x"
    using jsTruncate_bounds [OF assms]
    by (simp add: signed_take_bit_int_eq_self)
  then show ?thesis
    by (simp add: toInt16_def sint_sbintrunc')
qed

lemma toInt16_full_scale: "sint (toInt16 32768) = - 32768"
  by (simp add: toInt16_def jsTruncate_def)

lemma length_pcmBytes: "length (pcmBytes fs) = 2 * length fs"
  by (induction fs) (simp_all add: pcmBytes_def int16Bytes_def)

lemma int16Bytes_cat: "word_cat (int16Bytes w ! 1) (int16Bytes w ! 0) = w"
  apply (simp add: int16Bytes_def)
  apply (rule bit_word_eqI)
  apply (auto simp add: bit_simps)
  done

lemma int16Bytes_value: "uint (int16Bytes w ! 0) + 256 * uint (int16Bytes w ! 1) = uint w"
proof -
  have lo: "uint (ucast w :: 8 word) = uint w mod 256"
    by (simp add: unsigned_ucast_eq take_bit_eq_mod)
  have "uint w < 65536" using uint_lt2p [of w] by simp
  then have "uint w div 256 < 256" by simp
  moreover have "0 \<le> uint w div 256" by (simp add: pos_imp_zdiv_nonneg_iff)
  ultimately have "uint w div 256 mod 256 = uint w div 256" by simp
  then have hi: "uint (ucast (drop_bit 8 w) :: 8 word) = uint w div 256"
    by (simp add: unsigned_ucast_eq unsigned_drop_bit_eq take_bit_eq_mod drop_bit_eq_div
          uint_div_distrib)
  show ?thesis
    by (simp add: int16Bytes_def lo hi)
qed

lemma pcmBytes_Cons: "pcmBytes (f # fs) = int16Bytes (toInt16 (f * 32768)) @ pcmBytes fs"
  by (simp add: pcmBytes_def)

lemma length_int16Bytes: "length (int16Bytes w) = 2"
  by (simp add: int16Bytes_def)

lemma pcmBytes_sample:
  "k < length fs \<Longrightarrow>
   take 2 (drop (2 * k) (pcmBytes fs)) = int16Bytes (toInt16 (fs ! k * 32768))"
proof (induction fs arbitrary: k)
  case Nil
  then show ?case by simp
next
  case (Cons f fs)
  show ?case
  proof (cases k)
    case 0
    then show ?thesis by (simp add: pcmBytes_Cons length_int16Bytes)
  next
    case (Suc j)
    with Cons.prems have "j < length fs" by simp
    from Cons.IH [OF this] Suc show ?thesis
      by (simp add: pcmBytes_Cons length_int16Bytes)
  qed
qed

lemma onaudioprocess_sends:
  "sessionPromiseRef s = Some (Fulfilled session) \<Longrightarrow>
   runReactions (onaudioprocess enc inputData s) =
     s\<lparr>calls := calls s @ [SendRealtimeInput (pcmBlob enc inputData)]\<rparr>"
  by (simp add: onaudioprocess_def runReactions_def react_def)

lemma listeningState_promise: "sessionPromiseRef listeningState = Some (Fulfilled SessionOpen)"
  by (simp add: listeningState_def)

text \<open>
  Samples below full scale. With a fulfilled session promise \<open>onaudioprocess\<close> makes
  one \<open>sendRealtimeInput\<close> call, whose blob holds the encoding of the packed bytes and
  the fixed MIME type. There are two bytes for each sample, in the order of the samples,
  low byte first: the bytes at \<open>2 * k\<close> and \<open>2 * k + 1\<close> hold the 16-bit value of
  sample \<open>k\<close>. For a sample \<open>f\<close> with \<open>-1 \<le> f < 1\<close> that value, read as a
  signed number, is \<open>f * 32768\<close> truncated towards zero, which lies between
  \<open>-32768\<close> and \<open>32767\<close>.
\<close>

theorem encode_scaling_below_full_scale:
  assumes "list_all (\<lambda>f. - 1 \<le> f \<and> f < 1) inputData" and "k < length inputData"
    and "sessionPromiseRef s = Some (Fulfilled session)"
  shows "calls (runReactions (onaudioprocess enc inputData s)) =
           calls s @ [SendRealtimeInput
             \<lparr>blobData = enc (pcmBytes inputData), mimeType = ''audio/pcm;rate=16000''\<rparr>]
       \<and> length (pcmBytes inputData) = 2 * length inputData
       \<and> uint (pcmBytes inputData ! (2 * k)) + 256 * uint (pcmBytes inputData ! (2 * k + 1)) =
           uint (toInt16 (inputData ! k * 32768))
       \<and> sint (toInt16 (inputData ! k * 32768)) = jsTruncate (inputData ! k * 32768)
       \<and> - 32768 \<le> jsTruncate (inputData ! k * 32768)
       \<and> jsTruncate (inputData ! k * 32768) \<le> 32767"
proof -
  let ?f = "inputData ! k"
  let ?w = "toInt16 (?f * 32768)"
  from assms(1,2) have f: "- 1 \<le> ?f" "?f < 1"
    by (simp_all add: list_all_length)
  then have r: "- 32768 \<le> ?f * 32768" "?f * 32768 < 32768" by simp_all
  have t: "take 2 (drop (2 * k) (pcmBytes inputData)) = int16Bytes ?w"
    by (rule pcmBytes_sample [OF assms(2)])
  have len: "2 * k + 1 < length (pcmBytes inputData)"
    using assms(2) by (simp add: length_pcmBytes)
  have "int16Bytes ?w ! 0 = pcmBytes inputData ! (2 * k)"
    using len by (simp add: t [symmetric])
  moreover have "int16Bytes ?w ! 1 = pcmBytes inputData ! (2 * k + 1)"
    using len by (simp add: t [symmetric])
  ultimately have bytes:
    "uint (pcmBytes inputData ! (2 * k)) + 256 * uint (pcmBytes inputData ! (2 * k + 1)) = uint ?w"
    using int16Bytes_value [of ?w] by simp
  have c: "calls (runReactions (onaudioprocess enc inputData s)) =
           calls s @ [SendRealtimeInput
             \<lparr>blobData = enc (pcmBytes inputData), mimeType = ''audio/pcm;rate=16000''\<rparr>]"
    by (simp add: onaudioprocess_sends [OF assms(3)] pcmBlob_def)
  show ?thesis
    using c bytes sint_toInt16_exact [OF r] jsTruncate_bounds [OF r]
    by (simp add: length_pcmBytes)
qed

theorem encode_scaling_below_full_scale_witness:
  "list_all (\<lambda>f. - 1 \<le> f \<and> f < 1) [- 1, 1 / 2 :: rat] \<and> (1 :: nat) < length [- 1, 1 / 2 :: rat]
   \<and> sessionPromiseRef listeningState = Some (Fulfilled SessionOpen)
   \<and> sint (toInt16 ([- 1, 1 / 2] ! 1 * 32768)) = 16384
   \<and> uint (pcmBytes [- 1, 1 / 2] ! 2) + 256 * uint (pcmBytes [- 1, 1 / 2] ! 3) = 16384"
proof -
  have a: "list_all (\<lambda>f. - 1 \<le> f \<and> f < 1) [- 1, 1 / 2 :: rat]" by simp
  have b: "(1 :: nat) < length [- 1, 1 / 2 :: rat]" by simp
  note t = encode_scaling_below_full_scale [OF a b listeningState_promise, of stubEncode]
  have j: "jsTruncate 16384 = 16384" by (simp add: jsTruncate_def)
  have u: "uint (toInt16 (1 / 2 * 32768)) = 16384" by (simp add: toInt16_def j)
  show ?thesis
    using a t j u by (simp add: listeningState_promise)
qed

text \<open>
  C9. The sample \<open>1\<close> lies in the interval of the claim, and its product with
  \<open>32768\<close> is \<open>32768\<close>, which is not a signed 16-bit value: the conversion to
  the \<open>Int16Array\<close> wraps it to \<open>-32768\<close>. The bytes packed for the sample
  \<open>1\<close> are those of the sample \<open>-1\<close>, and the blob sent for it is the blob of
  \<open>-1\<close>.
\<close>

theorem encode_full_scale_wraps:
  "jsTruncate (1 * 32768) = 32768
   \<and> sint (toInt16 (1 * 32768)) = - 32768
   \<and> pcmBytes [1] = [0, 128]
   \<and> pcmBytes [- 1] = [0, 128]
   \<and> issued (\<lambda>s. runReactions (onaudioprocess stubEncode [1] s)) listeningState =
       [SendRealtimeInput (pcmBlob stubEncode [- 1])]"
proof -
  have a: "jsTruncate (1 * 32768) = 32768" "jsTruncate (- 1 * 32768) = - 32768"
    by (simp_all add: jsTruncate_def)
  have b: "pcmBytes [1] = [0, 128]" "pcmBytes [- 1] = [0, 128]"
    by (simp_all add: pcmBytes_def int16Bytes_def toInt16_def jsTruncate_def)
  have c: "pcmBlob stubEncode [1] = pcmBlob stubEncode [- 1]"
    by (simp add: pcmBlob_def b)
  have d: "issued (\<lambda>s. runReactions (onaudioprocess stubEncode [1] s)) listeningState =
       [SendRealtimeInput (pcmBlob stubEncode [1])]"
    by (simp add: issued_def onaudioprocess_sends [OF listeningState_promise])
  show ?thesis
    using a(1) b d toInt16_full_scale by (simp add: c)
qed

subsection \<open>Teardown\<close>

lemma not_Closed: "(st \<noteq> Closed) = (st = Running)" "(st \<noteq> Running) = (st = Closed)"
  by (cases st; simp)+

lemma sorted_map_const: "sorted (map (\<lambda>x. k :: nat) xs)"
  by (induction xs) simp_all

lemma stopTracks_sel:
  "sessionPromiseRef (stopTracks s) = sessionPromiseRef s"
  "calls (stopTracks s) =
     calls s @ (case mediaStreamRef s of None \<Rightarrow> [] | Some tracks \<Rightarrow> map TrackStop [0..<length tracks])"
  "mediaStreamRef (stopTracks s) = map_option (map (\<lambda>track. TrackEnded)) (mediaStreamRef s)"
  "scriptProcessorRef (stopTracks s) = scriptProcessorRef s"
  "audioContextRef (stopTracks s) = audioContextRef s"
  "outputSourcesRef (stopTracks s) = outputSourcesRef s"
  "outputAudioContextRef (stopTracks s) = outputAudioContextRef s"
  "raised (stopTracks s) = raised s"
  "status (stopTracks s) = status s"
  by (simp_all add: stopTracks_def split: option.splits)

lemma disconnectProcessor_sel:
  "sessionPromiseRef (disconnectProcessor s) = sessionPromiseRef s"
  "calls (disconnectProcessor s) =
     calls s @ (case scriptProcessorRef s of None \<Rightarrow> [] | Some node \<Rightarrow> [NodeDisconnect])"
  "mediaStreamRef (disconnectProcessor s) = mediaStreamRef s"
  "scriptProcessorRef (disconnectProcessor s) =
     map_option (\<lambda>node. node\<lparr>connected := False\<rparr>) (scriptProcessorRef s)"
  "audioContextRef (disconnectProcessor s) = audioContextRef s"
  "outputSourcesRef (disconnectProcessor s) = outputSourcesRef s"
  "outputAudioContextRef (disconnectProcessor s) = outputAudioContextRef s"
  "raised (disconnectProcessor s) = raised s"
  "status (disconnectProcessor s) = status s"
  by (simp_all add: disconnectProcessor_def split: option.splits)

lemma closeInputContext_sel:
  "sessionPromiseRef (closeInputContext s) = sessionPromiseRef s"
  "calls (closeInputContext s) =
     calls s @ (if audioContextRef s = Some Running then [InputContextClose] else [])"
  "mediaStreamRef (closeInputContext s) = mediaStreamRef s"
  "scriptProcessorRef (closeInputContext s) = scriptProcessorRef s"
  "audioContextRef (closeInputContext s) = map_option (\<lambda>st. Closed) (audioContextRef s)"
  "outputSourcesRef (closeInputContext s) = outputSourcesRef s"
  "outputAudioContextRef (closeInputContext s) = outputAudioContextRef s"
  "raised (closeInputContext s) = raised s"
  "status (closeInputContext s) = status s"
  by (simp_all add: closeInputContext_def AudioContext_close_def not_Closed split: option.splits)

lemma stopSources_sel:
  "sessionPromiseRef (stopSources s) = sessionPromiseRef s"
  "calls (stopSources s) = calls s @ map (\<lambda>source. SourceStop (sid source)) (outputSourcesRef s)"
  "mediaStreamRef (stopSources s) = mediaStreamRef s"
  "scriptProcessorRef (stopSources s) = scriptProcessorRef s"
  "audioContextRef (stopSources s) = audioContextRef s"
  "outputSourcesRef (stopSources s) = map (\<lambda>source. source\<lparr>stopped := True\<rparr>) (outputSourcesRef s)"
  "outputAudioContextRef (stopSources s) = outputAudioContextRef s"
  "raised (stopSources s) = raised s"
  "status (stopSources s) = status s"
  by (simp_all add: stopSources_def)

lemma closeOutputContext_sel:
  "sessionPromiseRef (closeOutputContext s) = sessionPromiseRef s"
  "calls (closeOutputContext s) =
     calls s @ (if outputAudioContextRef s = Some Running then [OutputContextClose] else [])"
  "mediaStreamRef (closeOutputContext s) = mediaStreamRef s"
  "scriptProcessorRef (closeOutputContext s) = scriptProcessorRef s"
  "audioContextRef (closeOutputContext s) = audioContextRef s"
  "outputSourcesRef (closeOutputContext s) = outputSourcesRef s"
  "outputAudioContextRef (closeOutputContext s) = map_option (\<lambda>st. Closed) (outputAudioContextRef s)"
  "raised (closeOutputContext s) = raised s"
  "status (closeOutputContext s) = status s"
  by (simp_all add: closeOutputContext_def AudioContext_close_def not_Closed split: option.splits)

lemmas cleanUp_parts_sel = stopTracks_sel disconnectProcessor_sel
  closeInputContext_sel stopSources_sel closeOutputContext_sel

lemma cleanUp_sel:
  "calls (fst (cleanUp s)) =
     calls s
     @ (case mediaStreamRef s of None \<Rightarrow> [] | Some tracks \<Rightarrow> map TrackStop [0..<length tracks])
     @ (case scriptProcessorRef s of None \<Rightarrow> [] | Some node \<Rightarrow> [NodeDisconnect])
     @ (if audioContextRef s = Some Running then [InputContextClose] else [])
     @ map (\<lambda>source. SourceStop (sid source)) (outputSourcesRef s)
     @ (if outputAudioContextRef s = Some Running then [OutputContextClose] else [])"
  "snd (cleanUp s) = (case sessionPromiseRef s of None \<Rightarrow> [] | Some p \<Rightarrow> [ThenClose])"
  "raised (fst (cleanUp s)) = raised s"
  "status (fst (cleanUp s)) = status s"
  "sessionPromiseRef (fst (cleanUp s)) = sessionPromiseRef s"
  "mediaStreamRef (fst (cleanUp s)) = map_option (map (\<lambda>track. TrackEnded)) (mediaStreamRef s)"
  "scriptProcessorRef (fst (cleanUp s)) =
     map_option (\<lambda>node. node\<lparr>connected := False\<rparr>) (scriptProcessorRef s)"
  "audioContextRef (fst (cleanUp s)) = map_option (\<lambda>st. Closed) (audioContextRef s)"
  "outputSourcesRef (fst (cleanUp s)) =
     map (\<lambda>source. source\<lparr>stopped := True\<rparr>) (outputSourcesRef s)"
  "outputAudioContextRef (fst (cleanUp s)) = map_option (\<lambda>st. Closed) (outputAudioContextRef s)"
  by (simp_all add: cleanUp_def Let_def cleanUp_parts_sel)

lemma handleEndSession_sel:
  "calls (fst (handleEndSession s)) = calls (fst (cleanUp s))"
  "snd (handleEndSession s) = snd (cleanUp s)"
  "raised (fst (handleEndSession s)) = raised s"
  "status (fst (handleEndSession s)) = Ended"
  "sessionPromiseRef (fst (handleEndSession s)) = sessionPromiseRef s"
  "mediaStreamRef (fst (handleEndSession s)) = mediaStreamRef (fst (cleanUp s))"
  "scriptProcessorRef (fst (handleEndSession s)) = scriptProcessorRef (fst (cleanUp s))"
  "audioContextRef (fst (handleEndSession s)) = audioContextRef (fst (cleanUp s))"
  "outputSourcesRef (fst (handleEndSession s)) = outputSourcesRef (fst (cleanUp s))"
  "outputAudioContextRef (fst (handleEndSession s)) = outputAudioContextRef (fst (cleanUp s))"
  by (simp_all add: handleEndSession_def cleanUp_sel)

lemma react_ThenClose_sel:
  "calls (react t ThenClose) =
     calls t @ (case sessionPromiseRef t of Some (Fulfilled x) \<Rightarrow> [SessionClose] | _ \<Rightarrow> [])"
  "raised (react t ThenClose) =
     raised t @ (if sessionPromiseRef t = Some Rejected then [ApiError] else [])"
  "sessionPromiseRef (react t ThenClose) =
     (case sessionPromiseRef t of Some (Fulfilled x) \<Rightarrow> Some (Fulfilled SessionClosed) | y \<Rightarrow> y)"
  "status (react t ThenClose) = status t"
  "mediaStreamRef (react t ThenClose) = mediaStreamRef t"
  "scriptProcessorRef (react t ThenClose) = scriptProcessorRef t"
  "audioContextRef (react t ThenClose) = audioContextRef t"
  "outputSourcesRef (react t ThenClose) = outputSourcesRef t"
  "outputAudioContextRef (react t ThenClose) = outputAudioContextRef t"
  by (simp_all add: react_def split: option.splits promise.splits)

lemma runReactions_close:
  "snd p = (case sessionPromiseRef (fst p) of None \<Rightarrow> [] | Some q \<Rightarrow> [ThenClose]) \<Longrightarrow>
   runReactions p = react (fst p) ThenClose"
  by (simp add: runReactions_def react_def split: option.splits)

lemma endSessionTask_eq: "endSessionTask s = react (fst (handleEndSession s)) ThenClose"
  unfolding endSessionTask_def
  by (rule runReactions_close) (simp add: handleEndSession_sel cleanUp_sel)

lemma unmountTask_eq: "unmountTask s = react (fst (cleanUp s)) ThenClose"
  unfolding unmountTask_def
  by (rule runReactions_close) (simp add: cleanUp_sel)

lemma endSessionTask_sel:
  "calls (endSessionTask s) = calls s @ releaseCalls s"
  "raised (endSessionTask s) =
     raised s @ (if sessionPromiseRef s = Some Rejected then [ApiError] else [])"
  "status (endSessionTask s) = Ended"
  "sessionPromiseRef (endSessionTask s) =
     (case sessionPromiseRef s of Some (Fulfilled x) \<Rightarrow> Some (Fulfilled SessionClosed) | y \<Rightarrow> y)"
  "mediaStreamRef (endSessionTask s) = map_option (map (\<lambda>track. TrackEnded)) (mediaStreamRef s)"
  "scriptProcessorRef (endSessionTask s) =
     map_option (\<lambda>node. node\<lparr>connected := False\<rparr>) (scriptProcessorRef s)"
  "audioContextRef (endSessionTask s) = map_option (\<lambda>st. Closed) (audioContextRef s)"
  "outputSourcesRef (endSessionTask s) =
     map (\<lambda>source. source\<lparr>stopped := True\<rparr>) (outputSourcesRef s)"
  "outputAudioContextRef (endSessionTask s) = map_option (\<lambda>st. Closed) (outputAudioContextRef s)"
  by (simp_all add: endSessionTask_eq react_ThenClose_sel handleEndSession_sel cleanUp_sel
        releaseCalls_def)

lemma unmountTask_sel:
  "calls (unmountTask s) = calls s @ releaseCalls s"
  "scriptProcessorRef (unmountTask s) =
     map_option (\<lambda>node. node\<lparr>connected := False\<rparr>) (scriptProcessorRef s)"
  by (simp_all add: unmountTask_eq react_ThenClose_sel cleanUp_sel releaseCalls_def)

lemma issued_endSessionTask: "issued endSessionTask s = releaseCalls s"
  by (simp add: issued_def endSessionTask_sel)

lemma issued_handleEndSession:
  "issued (\<lambda>s. fst (handleEndSession s)) s @
     (case sessionPromiseRef s of Some (Fulfilled x) \<Rightarrow> [SessionClose] | _ \<Rightarrow> [])
   = releaseCalls s"
  by (simp add: issued_def handleEndSession_sel cleanUp_sel releaseCalls_def)

lemma sorted_releaseCalls: "sorted (map codeReleaseRank (releaseCalls s))"
  by (auto simp add: releaseCalls_def sorted_append comp_def sorted_map_const
        split: option.splits promise.splits)

lemma released_endSessionTask: "released (endSessionTask s)"
  by (auto simp add: released_def endSessionTask_sel list_all_iff split: option.splits promise.splits)

lemma releaseCalls_endSessionTask:
  "releaseCalls (endSessionTask s) = filter (\<lambda>c. \<not> isContextClose c) (releaseCalls s)"
  by (auto simp add: releaseCalls_def endSessionTask_sel comp_def filter_map
        split: option.splits promise.splits)

lemma releaseCalls_speakingState:
  "releaseCalls speakingState =
     [TrackStop 0, NodeDisconnect, InputContextClose, SourceStop 0, OutputContextClose, SessionClose]"
  by (simp add: releaseCalls_def speakingState_def listeningState_def)

lemma raised_endSessionTask_twice:
  "sessionPromiseRef s \<noteq> Some Rejected \<Longrightarrow> raised (endSessionTask (endSessionTask s)) = raised s"
  by (simp add: endSessionTask_sel split: option.splits promise.splits)

lemma raised_endSessionTask_rejected:
  "sessionPromiseRef s = Some Rejected \<Longrightarrow> raised (endSessionTask s) = raised s @ [ApiError]"
  by (simp add: endSessionTask_sel)

text \<open>
  C4, as stated, fails. Ending the session while one frame plays makes the calls below in
  the order shown: the playback source is stopped after the microphone track, the
  processing node and the input context, and the channel is closed last, after the output
  context, which is not the order of the specification.
\<close>

theorem teardown_order_counterexample:
  "issued endSessionTask speakingState =
     [TrackStop 0, NodeDisconnect, InputContextClose, SourceStop 0, OutputContextClose, SessionClose]
   \<and> \<not> sorted (map specReleaseRank (issued endSessionTask speakingState))"
  by (simp add: issued_endSessionTask releaseCalls_speakingState)

text \<open>
  C4, amended. Ending the session releases in this order: the stop of the microphone
  tracks, the disconnection of the processing node, the close of the input context when it
  is running, the stop of every source in the set, the close of the output context when it
  is running; \<open>handleEndSession\<close> then sets the status to \<open>Ended\<close>; the close of
  the channel, chained on the session promise by the first statement of \<open>cleanUp\<close>,
  comes last, when that promise is fulfilled.
\<close>

theorem teardown_release_order:
  "issued endSessionTask s = releaseCalls s
   \<and> sorted (map codeReleaseRank (issued endSessionTask s))
   \<and> status (fst (handleEndSession s)) = Ended
   \<and> issued endSessionTask s =
       issued (\<lambda>s. fst (handleEndSession s)) s @
         (case sessionPromiseRef s of Some (Fulfilled x) \<Rightarrow> [SessionClose] | _ \<Rightarrow> [])
   \<and> status (endSessionTask s) = Ended"
  by (simp add: issued_endSessionTask issued_handleEndSession sorted_releaseCalls
        handleEndSession_sel endSessionTask_sel)

theorem teardown_release_order_witness:
  "issued endSessionTask speakingState =
     [TrackStop 0, NodeDisconnect, InputContextClose, SourceStop 0, OutputContextClose, SessionClose]
   \<and> issued (\<lambda>s. fst (handleEndSession s)) speakingState =
     [TrackStop 0, NodeDisconnect, InputContextClose, SourceStop 0, OutputContextClose]
   \<and> status (endSessionTask speakingState) = Ended"
proof -
  note t = teardown_release_order [of speakingState]
  have p: "sessionPromiseRef speakingState = Some (Fulfilled SessionOpen)"
    by (simp add: speakingState_def listeningState_def)
  have a: "issued endSessionTask speakingState =
     [TrackStop 0, NodeDisconnect, InputContextClose, SourceStop 0, OutputContextClose, SessionClose]"
    using t by (simp add: releaseCalls_speakingState)
  have e: "issued endSessionTask speakingState =
     issued (\<lambda>s. fst (handleEndSession s)) speakingState @ [SessionClose]"
    using conjunct1 [OF conjunct2 [OF conjunct2 [OF conjunct2 [OF t]]]]
    unfolding p by (simp only: option.case promise.case)
  have "issued (\<lambda>s. fst (handleEndSession s)) speakingState @ [SessionClose] =
     [TrackStop 0, NodeDisconnect, InputContextClose, SourceStop 0, OutputContextClose, SessionClose]"
    using e [symmetric] a by (rule trans)
  then have b: "issued (\<lambda>s. fst (handleEndSession s)) speakingState =
     [TrackStop 0, NodeDisconnect, InputContextClose, SourceStop 0, OutputContextClose]"
    by simp
  have c: "status (endSessionTask speakingState) = Ended"
    using t by simp
  show ?thesis
    by (intro conjI a b c)
qed

text \<open>
  C5, as stated, fails in its last part: a release is not skipped because the handle is
  already released. Ending twice a session in which one frame plays leaves every handle
  released after the first run, and the second run stops the track, disconnects the node,
  stops the source and closes the channel again.
\<close>

theorem teardown_reissues_releases_counterexample:
  "released (endSessionTask speakingState)
   \<and> issued endSessionTask (endSessionTask speakingState) =
       [TrackStop 0, NodeDisconnect, SourceStop 0, SessionClose]"
  by (simp add: released_endSessionTask issued_endSessionTask releaseCalls_endSessionTask
        releaseCalls_speakingState)

text \<open>
  C5, amended. From any state, also one where handles were never acquired, ending the
  session once or twice in a row leaves every resource handle released. The first run
  makes the releases of \<open>releaseCalls\<close>: none for a handle that was never acquired,
  and a context close only for a running context. The second run repeats the calls of the
  first except the two context closes. When the session promise is absent or fulfilled,
  neither run logs or raises an error.
\<close>

theorem idempotent_teardown:
  "released (endSessionTask s)
   \<and> released (endSessionTask (endSessionTask s))
   \<and> issued endSessionTask s = releaseCalls s
   \<and> issued endSessionTask (endSessionTask s) =
       filter (\<lambda>c. \<not> isContextClose c) (releaseCalls s)
   \<and> (sessionPromiseRef s \<noteq> Some Rejected \<longrightarrow>
        raised (endSessionTask s) = raised s
        \<and> raised (endSessionTask (endSessionTask s)) = raised s)"
proof -
  have "issued endSessionTask (endSessionTask s) =
       filter (\<lambda>c. \<not> isContextClose c) (releaseCalls s)"
    by (simp only: issued_endSessionTask releaseCalls_endSessionTask)
  moreover have "sessionPromiseRef s \<noteq> Some Rejected \<longrightarrow>
        raised (endSessionTask s) = raised s
        \<and> raised (endSessionTask (endSessionTask s)) = raised s"
    by (simp add: raised_endSessionTask_twice) (simp add: endSessionTask_sel)
  ultimately show ?thesis
    by (intro conjI released_endSessionTask issued_endSessionTask)
qed

theorem idempotent_teardown_witness:
  "sessionPromiseRef (onopen None startingState) \<noteq> Some Rejected
   \<and> raised (endSessionTask (endSessionTask (onopen None startingState))) = [PermissionDenied]
   \<and> released (endSessionTask (endSessionTask (onopen None startingState)))
   \<and> issued endSessionTask (onopen None startingState) = [SessionClose]
   \<and> issued endSessionTask (endSessionTask (onopen None startingState)) = [SessionClose]
   \<and> sessionPromiseRef initial \<noteq> Some Rejected
   \<and> issued endSessionTask initial = []
   \<and> raised (endSessionTask (endSessionTask initial)) = []"
  using idempotent_teardown [of "onopen None startingState"] idempotent_teardown [of initial]
  by (simp add: releaseCalls_def onopen_def startingState_def initial_def)

subsection \<open>Microphone permission\<close>

lemma filter_isSend_releaseCalls: "filter isSend (releaseCalls s) = []"
  by (auto simp add: releaseCalls_def filter_empty_conv split: option.splits promise.splits)

lemma endSessionTask_no_processor:
  "scriptProcessorRef s = None \<Longrightarrow> scriptProcessorRef (endSessionTask s) = None"
  "sends (endSessionTask s) = sends s"
  by (simp_all add: endSessionTask_sel sends_def filter_isSend_releaseCalls)

lemma unmountTask_no_processor:
  "scriptProcessorRef s = None \<Longrightarrow> scriptProcessorRef (unmountTask s) = None"
  "sends (unmountTask s) = sends s"
  by (simp_all add: unmountTask_sel sends_def filter_isSend_releaseCalls)

lemma playOpeningStatement_no_processor:
  "scriptProcessorRef (playOpeningStatement dec r ok s) = scriptProcessorRef s"
  "calls (playOpeningStatement dec r ok s) = calls s"
  by (simp_all add: playOpeningStatement_def startLiveSession_def openingFailed_def Let_def
        split: sum.splits option.splits)

lemma startLiveSession_no_processor:
  "scriptProcessorRef (startLiveSession ok s) = scriptProcessorRef s"
  "calls (startLiveSession ok s) = calls s"
  by (simp_all add: startLiveSession_def Let_def)

lemma onmessage_no_processor:
  "scriptProcessorRef (onmessage dec now m s) = scriptProcessorRef s"
  "calls (onmessage dec now m s) = calls s"
  by (simp_all add: onmessage_def onModelAudio_def onTurnComplete_def onOutputTranscription_def
        onInputTranscription_def Let_def split: option.splits)

lemma step_no_processor:
  assumes "scriptProcessorRef s = None" and "\<not> isOpen e"
  shows "scriptProcessorRef (step dec enc e s) = None \<and> sends (step dec enc e s) = sends s"
proof (cases e)
  case (Mounted r ok)
  then show ?thesis using assms(1) by (simp add: playOpeningStatement_no_processor sends_def)
next
  case (OpeningEnded ok)
  then show ?thesis using assms(1) by (simp add: startLiveSession_no_processor sends_def)
next
  case (Open mic)
  then show ?thesis using assms(2) by simp
next
  case (Message now m)
  then show ?thesis using assms(1) by (simp add: onmessage_no_processor sends_def)
next
  case (SourceEnded i)
  then show ?thesis using assms(1) by (simp add: onSourceEnded_def Let_def sends_def)
next
  case ChannelError
  then show ?thesis using assms(1) by (simp add: onerror_def sends_def)
next
  case ChannelClose
  then show ?thesis using assms(1) by (simp add: onclose_def)
next
  case (AudioProcess d)
  then show ?thesis using assms(1) by simp
next
  case EndSession
  then show ?thesis using assms(1) by (simp add: endSessionTask_no_processor)
next
  case Unmounted
  then show ?thesis using assms(1) by (simp add: unmountTask_no_processor)
qed

lemma run_no_processor:
  "scriptProcessorRef s = None \<Longrightarrow> list_all (\<lambda>e. \<not> isOpen e) es \<Longrightarrow>
   sends (run dec enc es s) = sends s"
proof (induction es arbitrary: s)
  case Nil
  then show ?case by simp
next
  case (Cons e es)
  then show ?case
    using step_no_processor [of s e dec enc] by simp
qed

text \<open>
  C8. In a state without processing node in which nothing has been sent (as in the state
  \<open>Starting\<close>), when the microphone is refused \<open>onopen\<close> sets the status to
  \<open>Error\<close>, and after it no run of events makes a \<open>sendRealtimeInput\<close> call
  (\<open>onopen\<close> runs once for a connection, so the run has no second \<open>Open\<close>);
  when the microphone is granted the status becomes \<open>Listening\<close>.
\<close>

theorem permission_denied_safety:
  assumes "scriptProcessorRef s = None" and "sends s = []"
    and "list_all (\<lambda>e. \<not> isOpen e) es"
  shows "status (onopen None s) = Error
       \<and> sends (run dec enc es (onopen None s)) = []
       \<and> status (onopen (Some stream) s) = Listening"
proof -
  have "scriptProcessorRef (onopen None s) = None" and "sends (onopen None s) = []"
    using assms(1,2) by (simp_all add: onopen_def sends_def)
  then have "sends (run dec enc es (onopen None s)) = []"
    using run_no_processor [of "onopen None s" es dec enc] assms(3) by simp
  then show ?thesis by (simp add: onopen_def)
qed

theorem permission_denied_safety_witness:
  "status startingState = Starting
   \<and> scriptProcessorRef startingState = None \<and> sends startingState = []
   \<and> list_all (\<lambda>e. \<not> isOpen e) [AudioProcess [1 / 2], Message 1 (audioMessage ''AAAAAAAA''), EndSession]
   \<and> status (onopen None startingState) = Error
   \<and> sends (run stubDecode stubEncode
        [AudioProcess [1 / 2], Message 1 (audioMessage ''AAAAAAAA''), EndSession]
        (onopen None startingState)) = []
   \<and> status (onopen (Some [Live]) startingState) = Listening"
proof -
  have a: "scriptProcessorRef startingState = None" "sends startingState = []"
    "status startingState = Starting"
    by (simp_all add: startingState_def initial_def sends_def)
  have b: "list_all (\<lambda>e. \<not> isOpen e)
      [AudioProcess [1 / 2], Message 1 (audioMessage ''AAAAAAAA''), EndSession]"
    by simp
  show ?thesis
    using a b permission_denied_safety [OF a(1) a(2) b, of stubDecode stubEncode "[Live]"]
    by simp
qed

end
